theory Spec2Isabelle
  imports Main "HOL-Library.Word"
begin

section \<open>The disk image assembler \<^verbatim>\<open>bootloader/createDiskImage.py\<close>\<close>

text \<open>
  The script is one straight-line block that reads three files and writes a fourth.
  It is embedded as a program over an explicit process state: the file system (a map
  from paths to file contents) and the text written to the error stream. Every
  \<^verbatim>\<open>sys.exit(1)\<close> and every exception Python can raise on the way is a value of
  the type \<open>error\<close>; reaching the final \<^verbatim>\<open>sys.exit(0)\<close> is the result \<open>Inr ()\<close>.
  Python's integers are unbounded and are modelled as \<open>int\<close>; \<^verbatim>\<open>//\<close> and \<^verbatim>\<open>%\<close>
  round towards minus infinity, as \<open>div\<close> and \<open>mod\<close> on \<open>int\<close> do.
\<close>

subsection \<open>Process state, errors and sequencing\<close>

type_synonym byte = "8 word"
type_synonym bytes = "byte list"

record world =
  files :: "string \<rightharpoonup> bytes"
  stderr :: string

text \<open>
  The first four errors are the script's own \<^verbatim>\<open>sys.exit(1)\<close> calls, named after the
  place that makes them; the last four are Python exceptions that nothing catches, so
  that the interpreter prints a traceback and exits with status 1.
\<close>

datatype error =
    NotEnoughArguments
  | FileDoesNotExist string
  | Stage0WrongSize
  | MetadataTooBig
  | FileNotFoundError
  | OverflowError
  | ValueError
  | AssertionError

type_synonym 'a prog = "world \<Rightarrow> (error + 'a) \<times> world"

definition ret :: "'a \<Rightarrow> 'a prog" where
  "ret x = (\<lambda>w. (Inr x, w))"

definition raise :: "error \<Rightarrow> 'a prog" where
  "raise e = (\<lambda>w. (Inl e, w))"

definition bnd :: "'a prog \<Rightarrow> ('a \<Rightarrow> 'b prog) \<Rightarrow> 'b prog" where
  "bnd m f = (\<lambda>w. case m w of (Inl e, w') \<Rightarrow> (Inl e, w') | (Inr x, w') \<Rightarrow> f x w')"

definition py_assert :: "bool \<Rightarrow> unit prog" where
  "py_assert c = (if c then ret () else raise AssertionError)"

text \<open>The exit status of the process: 0 after \<^verbatim>\<open>sys.exit(0)\<close>, 1 on every error.\<close>

fun exit_status :: "error + unit \<Rightarrow> nat" where
  "exit_status (Inr _) = 0"
| "exit_status (Inl _) = 1"

subsection \<open>The library calls the script makes\<close>

text \<open>
  \<^verbatim>\<open>n.to_bytes(length, byteorder)\<close> of an unsigned value: \<open>length\<close> base-256 digits of
  \<open>n\<close>, least significant first for \<^verbatim>\<open>"little"\<close>. Python raises \<^verbatim>\<open>ValueError\<close> for a
  negative length and \<^verbatim>\<open>OverflowError\<close> when \<open>n\<close> is negative or does not fit.
  The calls \<^verbatim>\<open>0x0.to_bytes(k)\<close> of the script pass no byte order and take the default
  \<^verbatim>\<open>"big"\<close> (Python 3.11 and later).
\<close>

datatype byteorder = Little | Big

fun le_digits :: "nat \<Rightarrow> int \<Rightarrow> bytes" where
  "le_digits 0 n = []"
| "le_digits (Suc l) n = word_of_int (n mod 256) # le_digits l (n div 256)"

definition to_bytes :: "int \<Rightarrow> int \<Rightarrow> byteorder \<Rightarrow> bytes prog" where
  "to_bytes n len order =
     (if len < 0 then raise ValueError
      else if n < 0 \<or> 256 ^ nat len \<le> n then raise OverflowError
      else ret (case order of
                  Little \<Rightarrow> le_digits (nat len) n
                | Big \<Rightarrow> rev (le_digits (nat len) n)))"

definition newline :: string where
  "newline = [CHR 0x0A]"

text \<open>\<^verbatim>\<open>cerr(msg, endl)\<close>: \<^verbatim>\<open>sys.stderr.write(msg + endl)\<close>.\<close>

definition cerr :: "string \<Rightarrow> string \<Rightarrow> unit prog" where
  "cerr msg endl = (\<lambda>w. (Inr (), w\<lparr>stderr := stderr w @ msg @ endl\<rparr>))"

text \<open>\<^verbatim>\<open>os.path.exists(filePath)\<close>.\<close>

definition path_exists :: "string \<Rightarrow> bool prog" where
  "path_exists filePath = (\<lambda>w. (Inr (files w filePath \<noteq> None), w))"

definition assertFileExists :: "string \<Rightarrow> unit prog" where
  "assertFileExists filePath =
     bnd (path_exists filePath) (\<lambda>found.
       if \<not> found then
         bnd (cerr (filePath @ '': file does not exist'') newline) (\<lambda>_.
         raise (FileDoesNotExist filePath))
       else ret ())"

text \<open>\<^verbatim>\<open>fileSize(filePath)\<close>: \<^verbatim>\<open>os.stat(filePath).st_size\<close>, which raises for a missing file.\<close>

definition fileSize :: "string \<Rightarrow> int prog" where
  "fileSize filePath =
     (\<lambda>w. case files w filePath of
             None \<Rightarrow> (Inl FileNotFoundError, w)
           | Some content \<Rightarrow> (Inr (int (length content)), w))"

text \<open>
  \<^verbatim>\<open>open(path, "wb")\<close> creates the file or truncates it to length 0 at once; the handle is
  represented by the path it was opened on. \<^verbatim>\<open>fd.write(data)\<close> appends. Python buffers
  the writes and flushes them when the file is closed or the interpreter exits; while
  the output path is none of the three input paths no read of the script can observe
  the difference, and the theorems about written images assume exactly that.
\<close>

definition open_wb :: "string \<Rightarrow> string prog" where
  "open_wb path = (\<lambda>w. (Inr path, w\<lparr>files := (files w)(path \<mapsto> [])\<rparr>))"

definition fd_write :: "string \<Rightarrow> bytes \<Rightarrow> unit prog" where
  "fd_write fd data =
     (\<lambda>w. (Inr (), w\<lparr>files := (files w)(fd \<mapsto>
              (case files w fd of None \<Rightarrow> data | Some content \<Rightarrow> content @ data))\<rparr>))"

definition fd_close :: "string \<Rightarrow> unit prog" where
  "fd_close fd = ret ()"

text \<open>\<^verbatim>\<open>open(path, "rb").read()\<close>.\<close>

definition read_rb :: "string \<Rightarrow> bytes prog" where
  "read_rb path =
     (\<lambda>w. case files w path of
             None \<Rightarrow> (Inl FileNotFoundError, w)
           | Some content \<Rightarrow> (Inr content, w))"

subsection \<open>The script\<close>

definition magic :: int where
  "magic = 0x617461646174656d"

definition kernelImageDiskOffset :: "int \<Rightarrow> int \<Rightarrow> int" where
  "kernelImageDiskOffset stage0Size stage1Size = stage0Size + stage1Size + 1"

definition kernelImageStartSec :: "int \<Rightarrow> int \<Rightarrow> int" where
  "kernelImageStartSec stage0Size stage1Size =
     (kernelImageDiskOffset stage0Size stage1Size div 512) +
     (kernelImageDiskOffset stage0Size stage1Size mod 512)"

definition paddingLen :: "int \<Rightarrow> int" where
  "paddingLen kernelImageSize = 512 - (kernelImageSize mod 512)"

text \<open>
  Lines 72 to 83: the three fields of the metadata sector, appended one after the
  other. The kernel's size is read on the way and used again for the final padding.
\<close>

definition metadataHeader :: "int \<Rightarrow> int \<Rightarrow> string \<Rightarrow> (bytes \<times> int) prog" where
  "metadataHeader stage0Size stage1Size kernelImagePath =
     bnd (to_bytes magic 8 Little) (\<lambda>field0.
     bnd (to_bytes (kernelImageStartSec stage0Size stage1Size) 8 Little) (\<lambda>field1.
     bnd (fileSize kernelImagePath) (\<lambda>kernelImageSize.
     bnd (to_bytes kernelImageSize 8 Little) (\<lambda>field2.
     ret (([] @ field0) @ field1 @ field2, kernelImageSize)))))"

definition usage :: string where
  "usage = ''  createDiskImage.py <stage 0 image> <stage 1 image> '' @
           ''<kernel ELF> <output file>''"

definition stage0_message :: string where
  "stage0_message = ''Stage 0'' @ [CHR 0x27] @ ''s image must be of size 512 bytes''"

definition main :: "string list \<Rightarrow> unit prog" where
  "main argv =
     (if length argv < 5 then
        bnd (cerr ''Not enough arguments'' newline) (\<lambda>_.
        bnd (cerr ''Usage:'' newline) (\<lambda>_.
        bnd (cerr usage newline) (\<lambda>_.
        raise NotEnoughArguments)))
      else
        let stage0ImagePath = argv ! 1;
            stage1ImagePath = argv ! 2;
            kernelImagePath = argv ! 3;
            outputPath = argv ! 4
        in
        bnd (assertFileExists stage0ImagePath) (\<lambda>_.
        bnd (assertFileExists stage1ImagePath) (\<lambda>_.
        bnd (assertFileExists kernelImagePath) (\<lambda>_.
        bnd (fileSize stage0ImagePath) (\<lambda>stage0Size.
        bnd (fileSize stage1ImagePath) (\<lambda>stage1Size.
        if stage0Size \<noteq> 512 then
          bnd (cerr stage0_message newline) (\<lambda>_.
          raise Stage0WrongSize)
        else
        bnd (open_wb outputPath) (\<lambda>fd.
        bnd (read_rb stage0ImagePath) (\<lambda>stage0Image.
        bnd (fd_write fd stage0Image) (\<lambda>_.
        bnd (read_rb stage1ImagePath) (\<lambda>stage1Image.
        bnd (fd_write fd stage1Image) (\<lambda>_.
        bnd (metadataHeader stage0Size stage1Size kernelImagePath) (\<lambda>(header, kernelImageSize).
        if int (length header) > 512 then
          bnd (cerr ''Metadata is bigger than a sector'' newline) (\<lambda>_.
          raise MetadataTooBig)
        else
        bnd (to_bytes 0 (512 - int (length header)) Big) (\<lambda>zeros.
        let metadataSec = header @ zeros in
        bnd (py_assert (int (length metadataSec) = 512)) (\<lambda>_.
        bnd (fd_write fd metadataSec) (\<lambda>_.
        bnd (read_rb kernelImagePath) (\<lambda>kernelImage.
        bnd (fd_write fd kernelImage) (\<lambda>_.
        bnd (to_bytes 0 (paddingLen kernelImageSize) Big) (\<lambda>padding.
        bnd (fd_write fd padding) (\<lambda>_.
        bnd (fd_close fd) (\<lambda>_.
        bnd (fileSize outputPath) (\<lambda>outputSize.
        bnd (py_assert (outputSize mod 512 = 0)) (\<lambda>_.
        ret ()))))))))))))))))))))))"

subsection \<open>Runs, inputs and what is read back from an image\<close>

text \<open>
  The file at the output path once the script has run on the command line \<open>argv\<close> in
  the world \<open>w\<close>, whatever the way the run ended.
\<close>

definition outputFile :: "string list \<Rightarrow> world \<Rightarrow> bytes option" where
  "outputFile argv w = files (snd (main argv w)) (argv ! 4)"

text \<open>
  A valid input: the four paths are given, the three input files exist with the
  contents \<open>stage0Img\<close>, \<open>stage1Img\<close> and \<open>kernelImg\<close>, and stage 0 is one sector.
  The output path is a destination of its own, none of the three input paths, and the
  two sizes the script encodes are sizes a file can have (\<^verbatim>\<open>st_size\<close> is a signed
  64-bit offset).
\<close>

definition valid_inputs :: "string list \<Rightarrow> world \<Rightarrow> bytes \<Rightarrow> bytes \<Rightarrow> bytes \<Rightarrow> bool" where
  "valid_inputs argv w stage0Img stage1Img kernelImg \<longleftrightarrow>
     5 \<le> length argv \<and>
     files w (argv ! 1) = Some stage0Img \<and>
     files w (argv ! 2) = Some stage1Img \<and>
     files w (argv ! 3) = Some kernelImg \<and>
     length stage0Img = 512 \<and>
     argv ! 4 \<noteq> argv ! 1 \<and> argv ! 4 \<noteq> argv ! 2 \<and> argv ! 4 \<noteq> argv ! 3 \<and>
     length stage1Img < 2 ^ 63 \<and> length kernelImg < 2 ^ 63"

text \<open>
  The bytes a run on a valid input leaves at the output path (lemma \<open>main_valid\<close>
  below): the two stages, the metadata sector, the kernel and its padding.
\<close>

definition diskImage :: "bytes \<Rightarrow> bytes \<Rightarrow> bytes \<Rightarrow> bytes" where
  "diskImage stage0Img stage1Img kernelImg =
     stage0Img @ stage1Img @
     (le_digits 8 magic @ le_digits 8 (kernelImageStartSec 512 (int (length stage1Img)))
        @ le_digits 8 (int (length kernelImg)) @ replicate 488 0) @
     kernelImg @ replicate (512 - length kernelImg mod 512) 0"

text \<open>
  What a boot loader does with the image, in the words of the specification: it reads
  an unsigned little-endian 64-bit field at a byte offset.
\<close>

fun from_le :: "bytes \<Rightarrow> int" where
  "from_le [] = 0"
| "from_le (b # bs) = uint b + 256 * from_le bs"

definition read_u64_le :: "bytes \<Rightarrow> nat \<Rightarrow> int" where
  "read_u64_le img off = from_le (take 8 (drop off img))"

text \<open>
  The start sector the specification asks for, \<^verbatim>\<open>ceil((512 + S1) / 512) + 1\<close>, and the
  sector at which its layout table puts the metadata sector, \<^verbatim>\<open>1 + ceil(S1 / 512)\<close>.
\<close>

definition ceil_div :: "int \<Rightarrow> int \<Rightarrow> int" where
  "ceil_div a b = - ((- a) div b)"

definition spec_kernel_start_sector :: "int \<Rightarrow> int" where
  "spec_kernel_start_sector S1 = ceil_div (512 + S1) 512 + 1"

definition spec_metadata_sector :: "int \<Rightarrow> int" where
  "spec_metadata_sector S1 = 1 + ceil_div S1 512"

text \<open>
  The layout example of the specification: a stage 0 of 512 zero bytes, a stage 1 of
  100 bytes \<^verbatim>\<open>0xAA\<close> and a kernel of 1000 bytes \<^verbatim>\<open>0xBB\<close>, in a file system that
  holds nothing else; and a second one whose stage 1 fills a sector exactly.
\<close>

definition example_argv :: "string list" where
  "example_argv =
     [''createDiskImage.py'', ''stage0.img'', ''stage1.img'', ''kernel.elf'', ''disk.img'']"

definition example_world :: "bytes \<Rightarrow> bytes \<Rightarrow> bytes \<Rightarrow> world" where
  "example_world stage0Img stage1Img kernelImg =
     \<lparr>files = [''stage0.img'' \<mapsto> stage0Img, ''stage1.img'' \<mapsto> stage1Img,
               ''kernel.elf'' \<mapsto> kernelImg],
      stderr = []\<rparr>"

definition stage0_example :: bytes where
  "stage0_example = replicate 512 0"

definition stage1_example :: bytes where
  "stage1_example = replicate 100 0xAA"

definition stage1_aligned_example :: bytes where
  "stage1_aligned_example = replicate 512 0xAA"

definition kernel_example :: bytes where
  "kernel_example = replicate 1000 0xBB"

definition kernel_aligned_example :: bytes where
  "kernel_aligned_example = replicate 1024 0xBB"

definition stage0_short_example :: bytes where
  "stage0_short_example = replicate 511 0"

text \<open>
  A second command line with other paths and an ignored extra argument, in a world
  where a file already exists at the output path and the error stream is not empty.
\<close>

definition other_argv :: "string list" where
  "other_argv = [''createDiskImage.py'', ''a'', ''b'', ''c'', ''d'', ''ignored'']"

definition other_world :: "bytes \<Rightarrow> bytes \<Rightarrow> bytes \<Rightarrow> world" where
  "other_world stage0Img stage1Img kernelImg =
     \<lparr>files = [''a'' \<mapsto> stage0Img, ''b'' \<mapsto> stage1Img, ''c'' \<mapsto> kernelImg,
               ''d'' \<mapsto> [1, 2, 3]],
      stderr = ''earlier output''\<rparr>"

section \<open>Properties\<close>

subsection \<open>Encoding\<close>

lemma length_le_digits: "length (le_digits l n) = l"
  by (induction l arbitrary: n) simp_all

lemma le_digits_zero: "le_digits l 0 = replicate l 0"
  by (induction l) simp_all

text \<open>Byte \<open>i\<close> of the encoding is the \<open>i\<close>-th base-256 digit: least significant byte first.\<close>

lemma le_digits_nth:
  "i < l \<Longrightarrow> le_digits l n ! i = word_of_int ((n div 256 ^ i) mod 256)"
proof (induction l arbitrary: n i)
  case 0
  then show ?case by simp
next
  case (Suc l)
  show ?case
  proof (cases i)
    case 0
    then show ?thesis by simp
  next
    case (Suc j)
    then have "j < l" using Suc.prems by simp
    then have "le_digits l (n div 256) ! j = word_of_int ((n div 256 div 256 ^ j) mod 256)"
      by (rule Suc.IH)
    moreover have "n div 256 div 256 ^ j = n div 256 ^ Suc j"
      by (simp add: zdiv_zmult2_eq)
    ultimately show ?thesis using Suc by simp
  qed
qed

lemma to_bytes_fits:
  assumes "0 \<le> len" "0 \<le> n" "n < 256 ^ nat len"
  shows "to_bytes n len Little w = (Inr (le_digits (nat len) n), w)"
    and "to_bytes n len Big w = (Inr (rev (le_digits (nat len) n)), w)"
  using assms by (simp_all add: to_bytes_def ret_def)

lemma to_bytes_zero:
  "0 \<le> len \<Longrightarrow> to_bytes 0 len Big w = (Inr (replicate (nat len) 0), w)"
proof -
  have "\<not> (256::int) ^ nat len \<le> 0" by (simp add: not_le)
  then show ?thesis if "0 \<le> len"
    using that by (simp add: to_bytes_def ret_def le_digits_zero)
qed

lemma to_bytes_length:
  "to_bytes n len order w = (Inr bs, w') \<Longrightarrow> int (length bs) = len \<and> w' = w"
  by (auto simp: to_bytes_def ret_def raise_def length_le_digits
      split: if_splits byteorder.splits)

lemma from_le_le_digits:
  "0 \<le> n \<Longrightarrow> n < 256 ^ l \<Longrightarrow> from_le (le_digits l n) = n"
proof (induction l arbitrary: n)
  case 0
  then show ?case by simp
next
  case (Suc l)
  have "256 * (n div 256) + n mod 256 = n" "0 \<le> n mod 256" by simp_all
  then have "n div 256 < 256 ^ l" using Suc.prems by simp
  moreover have "0 \<le> n div 256" using Suc.prems by simp
  ultimately have "from_le (le_digits l (n div 256)) = n div 256" by (rule Suc.IH[rotated])
  moreover have "uint (word_of_int (n mod 256) :: byte) = n mod 256"
    by (simp add: uint_word_of_int take_bit_eq_mod)
  ultimately show ?case by simp
qed

subsection \<open>The layout arithmetic\<close>

lemma magic_fits: "0 \<le> magic" "magic < 256 ^ 8"
  by (simp_all add: magic_def)

lemma startSec_bounds:
  assumes "0 \<le> s1" "s1 < 2 ^ 63"
  shows "0 \<le> kernelImageStartSec 512 s1" "kernelImageStartSec 512 s1 < 256 ^ 8"
proof -
  let ?off = "kernelImageDiskOffset 512 s1"
  have off: "0 \<le> ?off" "?off < 2 ^ 63 + 513"
    using assms by (simp_all add: kernelImageDiskOffset_def)
  have "512 * (?off div 512) + ?off mod 512 = ?off" by simp
  moreover have "0 \<le> ?off div 512" "0 \<le> ?off mod 512" "?off mod 512 < 512"
    using off by (simp_all add: pos_imp_zdiv_nonneg_iff)
  ultimately have "0 \<le> ?off div 512" "0 \<le> ?off mod 512" "?off mod 512 < 512"
      "?off div 512 \<le> ?off"
    by linarith+
  then show "0 \<le> kernelImageStartSec 512 s1" "kernelImageStartSec 512 s1 < 256 ^ 8"
    using off by (simp_all add: kernelImageStartSec_def)
qed

lemma nat_paddingLen: "nat (paddingLen (int n)) = 512 - n mod 512"
proof -
  have "int n mod 512 = int (n mod 512)" by (simp add: zmod_int)
  moreover have "n mod 512 < 512" by simp
  ultimately show ?thesis unfolding paddingLen_def by linarith
qed

lemma paddingLen_nonneg: "0 \<le> paddingLen k"
  unfolding paddingLen_def using pos_mod_bound[of 512 k] by linarith

lemma total_aligned:
  "(1024 + (int s1 + int k) + paddingLen (int k)) mod 512 = 0 \<longleftrightarrow> s1 mod 512 = 0"
proof -
  have e: "int k - int k mod 512 = 512 * (int k div 512)"
    by (rule minus_mod_eq_mult_div)
  have d: "512 * (int k div 512 + 3) = 512 * (int k div 512) + 1536"
    by (simp add: distrib_left)
  have "1024 + (int s1 + int k) + paddingLen (int k) = int s1 + 512 * (int k div 512 + 3)"
    unfolding paddingLen_def using e d by linarith
  then have "(1024 + (int s1 + int k) + paddingLen (int k)) mod 512 = int s1 mod 512"
    by (simp only: mod_mult_self2)
  also have "\<dots> = int (s1 mod 512)" by (simp add: zmod_int)
  finally show ?thesis by simp
qed

subsection \<open>A run on a valid input\<close>

lemma metadataHeader_valid:
  assumes "files w p = Some kernelImg" "length kernelImg < 2 ^ 63" "length stage1Img < 2 ^ 63"
  shows "metadataHeader 512 (int (length stage1Img)) p w =
    (Inr (le_digits 8 magic @ le_digits 8 (kernelImageStartSec 512 (int (length stage1Img)))
            @ le_digits 8 (int (length kernelImg)), int (length kernelImg)), w)"
proof -
  have s1: "int (length stage1Img) < 2 ^ 63" using assms(3) by (simp flip: of_nat_less_iff)
  have k: "int (length kernelImg) < 256 ^ 8" using assms(2) by (simp flip: of_nat_less_iff)
  have a: "to_bytes magic 8 Little w = (Inr (le_digits 8 magic), w)"
    using to_bytes_fits(1)[of 8 magic w] magic_fits by simp
  have b: "to_bytes (kernelImageStartSec 512 (int (length stage1Img))) 8 Little w
         = (Inr (le_digits 8 (kernelImageStartSec 512 (int (length stage1Img)))), w)"
    using to_bytes_fits(1)[of 8 "kernelImageStartSec 512 (int (length stage1Img))" w]
      startSec_bounds[of "int (length stage1Img)"] s1 by simp
  have c: "fileSize p w = (Inr (int (length kernelImg)), w)"
    using assms(1) by (simp add: fileSize_def)
  have d: "to_bytes (int (length kernelImg)) 8 Little w
         = (Inr (le_digits 8 (int (length kernelImg))), w)"
    using to_bytes_fits(1)[of 8 "int (length kernelImg)" w] k by simp
  show ?thesis
    unfolding metadataHeader_def
    by (simp add: bnd_def a b c d ret_def)
qed

text \<open>
  The whole run: the image is written in full, and the final assertion on its size
  holds exactly when the length of stage 1 is a multiple of 512.
\<close>

lemma main_valid:
  assumes "valid_inputs argv w stage0Img stage1Img kernelImg"
  shows "main argv w =
    (if length stage1Img mod 512 = 0 then Inr () else Inl AssertionError,
     w\<lparr>files := (files w)(argv ! 4 \<mapsto> diskImage stage0Img stage1Img kernelImg)\<rparr>)"
proof -
  from assms have argc: "\<not> length argv < 5"
    and f0: "files w (argv ! Suc 0) = Some stage0Img"
    and f1: "files w (argv ! 2) = Some stage1Img"
    and fk: "files w (argv ! 3) = Some kernelImg"
    and l0: "length stage0Img = 512"
    and ne: "argv ! 4 \<noteq> argv ! Suc 0" "argv ! 4 \<noteq> argv ! 2" "argv ! 4 \<noteq> argv ! 3"
    and l1: "length stage1Img < 2 ^ 63" and lk: "length kernelImg < 2 ^ 63"
    by (simp_all add: valid_inputs_def)
  note ne' = ne ne[symmetric]
  show ?thesis
    unfolding main_def
    by (simp add: argc Let_def bnd_def assertFileExists_def path_exists_def fileSize_def
        open_wb_def read_rb_def fd_write_def fd_close_def py_assert_def ret_def raise_def
        f0 f1 fk l0 ne' metadataHeader_valid[OF _ lk l1] to_bytes_zero length_le_digits
        paddingLen_nonneg nat_paddingLen total_aligned diskImage_def)
qed

lemma outputFile_valid:
  "valid_inputs argv w stage0Img stage1Img kernelImg \<Longrightarrow>
   outputFile argv w = Some (diskImage stage0Img stage1Img kernelImg)"
  by (simp add: outputFile_def main_valid)

text \<open>
  The shape of the metadata sector on every valid input: 512 bytes right after stage 1,
  three little-endian fields of 8 bytes and 488 zero bytes. The second field is whatever
  \<open>kernelImageStartSec\<close> computes.
\<close>

lemma metadata_layout:
  assumes "valid_inputs argv w stage0Img stage1Img kernelImg"
  shows "\<exists>sector rest.
           outputFile argv w = Some (stage0Img @ stage1Img @ sector @ rest) \<and>
           length sector = 512 \<and>
           sector = le_digits 8 0x617461646174656d
                  @ le_digits 8 (kernelImageStartSec 512 (int (length stage1Img)))
                  @ le_digits 8 (int (length kernelImg))
                  @ replicate 488 0"
  using outputFile_valid[OF assms]
  by (simp add: diskImage_def length_le_digits magic_def)

lemma diskImage_length:
  assumes "length stage0Img = 512"
  shows "length (diskImage stage0Img stage1Img kernelImg) =
     1024 + length stage1Img + length kernelImg + (512 - length kernelImg mod 512)"
  using assms by (simp add: diskImage_def length_le_digits)

subsection \<open>The examples are valid inputs\<close>

lemma example_valid:
  assumes "length stage0Img = 512" "length stage1Img < 2 ^ 63" "length kernelImg < 2 ^ 63"
  shows "valid_inputs example_argv (example_world stage0Img stage1Img kernelImg)
           stage0Img stage1Img kernelImg"
  using assms by (simp add: valid_inputs_def example_argv_def example_world_def)

lemma spec_example_valid:
  "valid_inputs example_argv (example_world stage0_example stage1_example kernel_example)
     stage0_example stage1_example kernel_example"
  by (rule example_valid) (simp_all add: stage0_example_def stage1_example_def kernel_example_def)

lemma aligned_example_valid:
  "valid_inputs example_argv (example_world stage0_example stage1_aligned_example kernel_example)
     stage0_example stage1_aligned_example kernel_example"
  by (rule example_valid)
    (simp_all add: stage0_example_def stage1_aligned_example_def kernel_example_def)

lemma other_valid:
  assumes "length stage0Img = 512" "length stage1Img < 2 ^ 63" "length kernelImg < 2 ^ 63"
  shows "valid_inputs other_argv (other_world stage0Img stage1Img kernelImg)
           stage0Img stage1Img kernelImg"
  using assms by (simp add: valid_inputs_def other_argv_def other_world_def)

lemma aligned_kernel_example_valid:
  "valid_inputs example_argv
     (example_world stage0_example stage1_aligned_example kernel_aligned_example)
     stage0_example stage1_aligned_example kernel_aligned_example"
  by (rule example_valid)
    (simp_all add: stage0_example_def stage1_aligned_example_def kernel_aligned_example_def)

lemma le_digits_magic:
  "le_digits 8 magic = [0x6d, 0x65, 0x74, 0x61, 0x64, 0x61, 0x74, 0x61]"
  by (simp add: magic_def eval_nat_numeral)

lemma le_digits_102: "le_digits 8 102 = [0x66, 0, 0, 0, 0, 0, 0, 0]"
  by (simp add: eval_nat_numeral)

lemma le_digits_1000: "le_digits 8 1000 = [0xE8, 0x03, 0, 0, 0, 0, 0, 0]"
  by (simp add: eval_nat_numeral)

lemma startSec_100: "kernelImageStartSec 512 100 = 102"
  by (simp add: kernelImageStartSec_def kernelImageDiskOffset_def)

lemma spec_start_100: "spec_kernel_start_sector 100 = 3"
  by (simp add: spec_kernel_start_sector_def ceil_div_def)

lemma spec_meta_100: "spec_metadata_sector 100 = 2"
  by (simp add: spec_metadata_sector_def ceil_div_def)

subsection \<open>Reading the image back\<close>

lemma read_u64_le_at:
  assumes "length front = off" "length field = 8"
  shows "read_u64_le (front @ field @ rest) off = from_le field"
  using assms by (simp add: read_u64_le_def)

lemma from_le_zeros: "from_le (replicate n 0) = 0"
  by (induction n) simp_all

lemma fields_read_back:
  assumes "valid_inputs argv w stage0Img stage1Img kernelImg"
  shows "read_u64_le (diskImage stage0Img stage1Img kernelImg) (512 + length stage1Img)
           = magic"
    and "read_u64_le (diskImage stage0Img stage1Img kernelImg) (512 + length stage1Img + 8)
           = kernelImageStartSec 512 (int (length stage1Img))"
    and "read_u64_le (diskImage stage0Img stage1Img kernelImg) (512 + length stage1Img + 16)
           = int (length kernelImg)"
proof -
  from assms have l0: "length stage0Img = 512"
    and l1: "length stage1Img < 2 ^ 63" and lk: "length kernelImg < 2 ^ 63"
    by (simp_all add: valid_inputs_def)
  let ?start = "kernelImageStartSec 512 (int (length stage1Img))"
  let ?f0 = "le_digits 8 magic" and ?f1 = "le_digits 8 ?start"
  let ?f2 = "le_digits 8 (int (length kernelImg))"
  let ?rest = "replicate 488 0 @ kernelImg @ replicate (512 - length kernelImg mod 512) 0"
  let ?img = "diskImage stage0Img stage1Img kernelImg"
  have s1: "int (length stage1Img) < 2 ^ 63" using l1 by (simp flip: of_nat_less_iff)
  have k: "int (length kernelImg) < 256 ^ 8" using lk by (simp flip: of_nat_less_iff)
  have a: "?img = (stage0Img @ stage1Img) @ ?f0 @ (?f1 @ ?f2 @ ?rest)"
    and b: "?img = (stage0Img @ stage1Img @ ?f0) @ ?f1 @ (?f2 @ ?rest)"
    and c: "?img = (stage0Img @ stage1Img @ ?f0 @ ?f1) @ ?f2 @ ?rest"
    by (simp_all add: diskImage_def)
  have "read_u64_le ?img (512 + length stage1Img) = from_le ?f0"
    by (subst a, rule read_u64_le_at) (simp_all add: l0 length_le_digits)
  then show "read_u64_le ?img (512 + length stage1Img) = magic"
    using magic_fits by (simp add: from_le_le_digits)
  have "read_u64_le ?img (512 + length stage1Img + 8) = from_le ?f1"
    by (subst b, rule read_u64_le_at) (simp_all add: l0 length_le_digits)
  then show "read_u64_le ?img (512 + length stage1Img + 8) = ?start"
    using startSec_bounds[of "int (length stage1Img)"] s1 by (simp add: from_le_le_digits)
  have "read_u64_le ?img (512 + length stage1Img + 16) = from_le ?f2"
    by (subst c, rule read_u64_le_at) (simp_all add: l0 length_le_digits)
  then show "read_u64_le ?img (512 + length stage1Img + 16) = int (length kernelImg)"
    using k by (simp add: from_le_le_digits)
qed

text \<open>Any eight bytes read inside the zero padding of the metadata sector are zero.\<close>

lemma read_zero_padding:
  assumes "length stage0Img = 512" "n \<le> 480"
  shows "read_u64_le (diskImage stage0Img stage1Img kernelImg) (536 + length stage1Img + n) = 0"
proof -
  let ?head = "le_digits 8 magic @ le_digits 8 (kernelImageStartSec 512 (int (length stage1Img)))
                 @ le_digits 8 (int (length kernelImg))"
  let ?tail = "kernelImg @ replicate (512 - length kernelImg mod 512) 0"
  have "replicate 488 (0::byte) = replicate (n + (8 + (480 - n))) 0"
    using assms(2) by simp
  then have r: "replicate 488 (0::byte)
      = replicate n 0 @ replicate 8 0 @ replicate (480 - n) 0"
    by (simp only: replicate_add)
  have "diskImage stage0Img stage1Img kernelImg
      = (stage0Img @ stage1Img @ ?head @ replicate n 0) @ replicate 8 0
          @ (replicate (480 - n) 0 @ ?tail)"
    unfolding diskImage_def r by simp
  moreover have "length (stage0Img @ stage1Img @ ?head @ replicate n 0)
      = 536 + length stage1Img + n"
    using assms(1) by (simp add: length_le_digits)
  ultimately have "read_u64_le (diskImage stage0Img stage1Img kernelImg)
        (536 + length stage1Img + n) = from_le (replicate 8 0)"
    by (simp only: read_u64_le_at length_replicate)
  then show ?thesis by (simp only: from_le_zeros)
qed

subsection \<open>How a run can fail\<close>

lemma bnd_eq_Inr:
  "bnd m f w = (Inr y, w'') \<longleftrightarrow> (\<exists>x w'. m w = (Inr x, w') \<and> f x w' = (Inr y, w''))"
  by (auto simp: bnd_def split: prod.splits sum.splits)

lemma bnd_eq_Inl:
  "bnd m f w = (Inl e, w'') \<longleftrightarrow>
     m w = (Inl e, w'') \<or> (\<exists>x w'. m w = (Inr x, w') \<and> f x w' = (Inl e, w''))"
  by (auto simp: bnd_def split: prod.splits sum.splits)

lemma to_bytes_error:
  "to_bytes n len order w = (Inl e, w') \<Longrightarrow> e = ValueError \<or> e = OverflowError"
  by (auto simp: to_bytes_def ret_def raise_def split: if_splits)

lemma fileSize_error:
  "fileSize p w = (Inl e, w') \<Longrightarrow> e = FileNotFoundError"
  by (auto simp: fileSize_def split: option.splits)

lemma read_rb_error:
  "read_rb p w = (Inl e, w') \<Longrightarrow> e = FileNotFoundError"
  by (auto simp: read_rb_def split: option.splits)

lemma py_assert_error:
  "py_assert c w = (Inl e, w') \<Longrightarrow> e = AssertionError"
  by (auto simp: py_assert_def raise_def ret_def split: if_splits)

lemma assertFileExists_error:
  "assertFileExists p w = (Inl e, w') \<Longrightarrow> e = FileDoesNotExist p"
  by (auto simp: assertFileExists_def path_exists_def bnd_eq_Inl cerr_def raise_def ret_def
      split: if_splits)

lemma metadataHeader_length:
  assumes "metadataHeader stage0Size stage1Size kernelImagePath w
             = (Inr (header, kernelImageSize), w')"
  shows "length header = 24"
  using assms unfolding metadataHeader_def
  by (auto simp: bnd_eq_Inr ret_def dest!: to_bytes_length)

lemma metadataHeader_error:
  assumes "metadataHeader stage0Size stage1Size kernelImagePath w = (Inl e, w')"
  shows "e = ValueError \<or> e = OverflowError \<or> e = FileNotFoundError"
  using assms unfolding metadataHeader_def
  by (auto simp: bnd_eq_Inl ret_def dest: to_bytes_error fileSize_error)

lemma main_not_MetadataTooBig:
  "fst (main argv w) \<noteq> Inl MetadataTooBig"
proof
  assume "fst (main argv w) = Inl MetadataTooBig"
  then obtain w' where "main argv w = (Inl MetadataTooBig, w')"
    by (cases "main argv w") simp
  then show False
    unfolding main_def Let_def
    by (auto simp: bnd_eq_Inl cerr_def raise_def ret_def open_wb_def fd_write_def fd_close_def
        split: if_splits
        dest: assertFileExists_error fileSize_error read_rb_error py_assert_error
          to_bytes_error metadataHeader_error metadataHeader_length)
qed

subsection \<open>A stage 1 that fills its sectors\<close>

text \<open>
  When the length of stage 1 is a multiple of 512 the script reaches \<^verbatim>\<open>sys.exit(0)\<close>,
  the image is a whole number of sectors, and the start sector it writes is the one
  the specification asks for.
\<close>

lemma paddingLen_aligned:
  assumes "n mod 512 = 0"
  shows "paddingLen (int n) = 512"
proof -
  have "int n mod 512 = int (n mod 512)" by (simp add: zmod_int)
  then have "int n mod 512 = 0" using assms by simp
  then show ?thesis by (simp add: paddingLen_def)
qed

lemma kernelImageStartSec_aligned:
  assumes "0 \<le> s1" "s1 mod 512 = 0"
  shows "kernelImageStartSec 512 s1 = s1 div 512 + 2"
    and "spec_kernel_start_sector s1 = s1 div 512 + 2"
proof -
  have "512 * (s1 div 512) + s1 mod 512 = s1" by (rule mult_div_mod_eq)
  with assms(2) have s1: "s1 = 512 * (s1 div 512)" by simp
  define q where "q = s1 div 512"
  have off: "kernelImageDiskOffset 512 s1 = 1 + 512 * (q + 1)"
    using s1 by (simp add: kernelImageDiskOffset_def q_def)
  have "kernelImageDiskOffset 512 s1 div 512 = q + 1" "kernelImageDiskOffset 512 s1 mod 512 = 1"
    unfolding off by simp_all
  then show "kernelImageStartSec 512 s1 = s1 div 512 + 2"
    by (simp add: kernelImageStartSec_def q_def)
  have "- (512 + s1) = 512 * (- (q + 1))" using s1 by (simp add: q_def)
  then have "(- (512 + s1)) div 512 = - (q + 1)" by simp
  then show "spec_kernel_start_sector s1 = s1 div 512 + 2"
    by (simp add: spec_kernel_start_sector_def ceil_div_def q_def)
qed

text \<open>
  With such a stage 1 the start sector written is the sector at which the kernel
  begins: 512 times the field is the byte offset 1024 + S1 of the kernel.
\<close>

lemma start_sector_field_aligned:
  assumes "length stage1Img mod 512 = 0"
  shows "kernelImageStartSec 512 (int (length stage1Img)) * 512
           = int (1024 + length stage1Img)"
proof -
  let ?s = "int (length stage1Img)"
  have "?s mod 512 = int (length stage1Img mod 512)" by (simp add: zmod_int)
  then have m: "?s mod 512 = 0" using assms by simp
  have "512 * (?s div 512) + ?s mod 512 = ?s" by (rule mult_div_mod_eq)
  then have "512 * (?s div 512) = ?s" using m by simp
  moreover have "kernelImageStartSec 512 ?s = ?s div 512 + 2"
    by (rule kernelImageStartSec_aligned(1)) (simp_all add: m)
  ultimately show ?thesis by simp
qed

lemma aligned_run:
  assumes "valid_inputs argv w stage0Img stage1Img kernelImg" "length stage1Img mod 512 = 0"
  shows "fst (main argv w) = Inr ()"
    and "length (diskImage stage0Img stage1Img kernelImg) mod 512 = 0"
proof -
  show "fst (main argv w) = Inr ()"
    using assms(2) by (simp add: main_valid[OF assms(1)])
  from assms(1) have l0: "length stage0Img = 512" by (simp add: valid_inputs_def)
  have "int (length (diskImage stage0Img stage1Img kernelImg))
      = 1024 + (int (length stage1Img) + int (length kernelImg))
        + paddingLen (int (length kernelImg))"
    using nat_paddingLen[of "length kernelImg"] paddingLen_nonneg[of "int (length kernelImg)"]
    by (simp add: diskImage_length[OF l0])
  then have "int (length (diskImage stage0Img stage1Img kernelImg)) mod 512 = 0"
    using assms(2) by (simp only: total_aligned)
  moreover have "int (length (diskImage stage0Img stage1Img kernelImg)) mod 512
      = int (length (diskImage stage0Img stage1Img kernelImg) mod 512)"
    by (simp add: zmod_int)
  ultimately show "length (diskImage stage0Img stage1Img kernelImg) mod 512 = 0"
    by simp
qed

text \<open>
  In general the length of the image exceeds a multiple of 512 by the remainder of the
  length of stage 1, and a run on a stage 1 that does not fill its sectors ends in the
  failure of the final assertion.
\<close>

lemma diskImage_length_mod:
  assumes "length stage0Img = 512"
  shows "length (diskImage stage0Img stage1Img kernelImg) mod 512 = length stage1Img mod 512"
proof -
  let ?k = "length kernelImg"
  have "512 * (?k div 512) + ?k mod 512 = ?k" by (rule mult_div_mod_eq)
  moreover have "?k mod 512 < 512" by simp
  ultimately have "?k + (512 - ?k mod 512) = 512 * (?k div 512) + 512" by linarith
  moreover have "512 * (?k div 512 + 3) = 512 * (?k div 512) + 1536" by simp
  ultimately have "length (diskImage stage0Img stage1Img kernelImg)
      = length stage1Img + 512 * (?k div 512 + 3)"
    using diskImage_length[OF assms, of stage1Img kernelImg] by linarith
  then show ?thesis by (simp only: mod_mult_self2)
qed

lemma unaligned_run:
  assumes "valid_inputs argv w stage0Img stage1Img kernelImg" "length stage1Img mod 512 \<noteq> 0"
  shows "fst (main argv w) = Inl AssertionError"
  using assms(2) by (simp add: main_valid[OF assms(1)])

subsection \<open>A second run\<close>

lemma valid_inputs_after:
  assumes "valid_inputs argv w stage0Img stage1Img kernelImg"
  shows "valid_inputs argv (snd (main argv w)) stage0Img stage1Img kernelImg"
  using assms unfolding main_valid[OF assms] by (auto simp: valid_inputs_def)

section \<open>The claims\<close>

text \<open>
  C1. The claim: for every valid input the output file has a length that is a multiple
  of 512, for every stage-1 length and every kernel length. The script asserts this
  itself in its last statement, and breaks it: on the layout example of the
  specification (stage 1 of 100 bytes, kernel of 1000 bytes) it leaves an output file of
  2148 bytes, 100 more than a multiple of 512, and then dies on its own assertion.
\<close>

theorem C1_size_assertion_fails:
  "fst (main example_argv (example_world stage0_example stage1_example kernel_example))
     = Inl AssertionError \<and>
   map_option length
     (outputFile example_argv (example_world stage0_example stage1_example kernel_example))
     = Some 2148 \<and> (2148::nat) mod 512 = 100"
proof -
  let ?w = "example_world stage0_example stage1_example kernel_example"
  have "length stage1_example mod 512 \<noteq> 0"
    by (simp add: stage1_example_def)
  then have "fst (main example_argv ?w) = Inl AssertionError"
    by (simp add: main_valid[OF spec_example_valid])
  moreover have "length (diskImage stage0_example stage1_example kernel_example) = 2148"
    by (simp add: diskImage_length stage0_example_def stage1_example_def kernel_example_def)
  ultimately show ?thesis
    by (simp add: outputFile_valid[OF spec_example_valid])
qed

text \<open>
  C2. The claim: the start sector written at bytes 8 to 15 of the metadata sector is
  \<^verbatim>\<open>ceil((512 + S1) / 512) + 1\<close>. The script computes
  \<^verbatim>\<open>(off // 512) + (off % 512)\<close> with \<^verbatim>\<open>off = 512 + S1 + 1\<close>, adding a remainder
  in bytes to a count of sectors. On the layout example (stage 1 of 100 bytes) the
  field read back from the image is 102, where the claim asks for 3.
\<close>

theorem C2_start_sector_example:
  "(\<exists>img. outputFile example_argv (example_world stage0_example stage1_example kernel_example)
            = Some img \<and>
          read_u64_le img (512 + 100 + 8) = 102) \<and>
   kernelImageStartSec 512 100 = 102 \<and>
   spec_kernel_start_sector 100 = 3"
proof -
  have "read_u64_le (diskImage stage0_example stage1_example kernel_example)
          (512 + length stage1_example + 8)
        = kernelImageStartSec 512 (int (length stage1_example))"
    by (rule fields_read_back(2)[OF spec_example_valid])
  then have "read_u64_le (diskImage stage0_example stage1_example kernel_example)
          (512 + 100 + 8) = 102"
    by (simp add: stage1_example_def startSec_100)
  then show ?thesis
    by (simp add: outputFile_valid[OF spec_example_valid] startSec_100 spec_start_100)
qed

text \<open>
  C3. The claim: the metadata sector begins at sector \<^verbatim>\<open>1 + ceil(S1 / 512)\<close>, at a
  sector-aligned byte offset. The script writes it right after the bytes of stage 1,
  at byte offset \<^verbatim>\<open>512 + S1\<close>. On the layout example the magic number is found at byte
  612, which is not a sector boundary, and the eight bytes at the start of sector 2,
  where the claim puts the sector, are zero.
\<close>

theorem C3_metadata_offset_example:
  "(\<exists>img. outputFile example_argv (example_world stage0_example stage1_example kernel_example)
            = Some img \<and>
          read_u64_le img 612 = 0x617461646174656d \<and>
          read_u64_le img (512 * 2) = 0) \<and>
   (612::nat) mod 512 = 100 \<and>
   spec_metadata_sector 100 = 2"
proof -
  let ?img = "diskImage stage0_example stage1_example kernel_example"
  have "read_u64_le ?img (512 + length stage1_example) = magic"
    by (rule fields_read_back(1)[OF spec_example_valid])
  then have a: "read_u64_le ?img 612 = 0x617461646174656d"
    by (simp add: stage1_example_def magic_def)
  have "read_u64_le ?img (536 + length stage1_example + 388) = 0"
    by (rule read_zero_padding) (simp_all add: stage0_example_def)
  then have b: "read_u64_le ?img (512 * 2) = 0"
    by (simp add: stage1_example_def)
  show ?thesis
    using a b by (simp add: outputFile_valid[OF spec_example_valid] spec_meta_100)
qed

text \<open>
  C4. The claim: the metadata sector is 512 bytes, with the magic constant in bytes 0
  to 7, the kernel start sector in bytes 8 to 15, the unpadded kernel length in bytes 16
  to 23 and zeros after that. The sector has that shape (lemma \<open>metadata_layout\<close>), but
  the second field is not the kernel's start sector: on the layout example of the
  specification the script writes 102 there, while the kernel begins at byte 1124 of an
  image of 2148 bytes, which is no sector boundary, and the specification asks for 3.
  The field is right when stage 1 fills its sectors (lemma
  \<open>start_sector_field_aligned\<close>).
\<close>

theorem C4_start_sector_field_example:
  "outputFile example_argv (example_world stage0_example stage1_example kernel_example)
     = Some (stage0_example @ stage1_example
             @ ([0x6d, 0x65, 0x74, 0x61, 0x64, 0x61, 0x74, 0x61]
                @ [0x66, 0, 0, 0, 0, 0, 0, 0]
                @ [0xE8, 0x03, 0, 0, 0, 0, 0, 0]
                @ replicate 488 0)
             @ kernel_example @ replicate 24 0) \<and>
   from_le [0x66, 0, 0, 0, 0, 0, 0, 0] = 102 \<and>
   length (stage0_example @ stage1_example
           @ ([0x6d, 0x65, 0x74, 0x61, 0x64, 0x61, 0x74, 0x61]
              @ [0x66, 0, 0, 0, 0, 0, 0, 0]
              @ [0xE8, 0x03, 0, 0, 0, 0, 0, 0]
              @ replicate 488 (0::byte))) = 1124 \<and>
   (1124::nat) mod 512 = 100 \<and>
   spec_kernel_start_sector 100 = 3"
proof -
  have l: "length stage1_example = 100" "length kernel_example = 1000"
    by (simp_all add: stage1_example_def kernel_example_def)
  have "diskImage stage0_example stage1_example kernel_example
     = stage0_example @ stage1_example
             @ ([0x6d, 0x65, 0x74, 0x61, 0x64, 0x61, 0x74, 0x61]
                @ [0x66, 0, 0, 0, 0, 0, 0, 0]
                @ [0xE8, 0x03, 0, 0, 0, 0, 0, 0]
                @ replicate 488 0)
             @ kernel_example @ replicate 24 0"
    unfolding diskImage_def l
    by (simp only: of_nat_numeral startSec_100 le_digits_magic le_digits_102 le_digits_1000)
      simp
  moreover have "length stage0_example = 512"
    by (simp add: stage0_example_def)
  ultimately show ?thesis
    by (simp add: outputFile_valid[OF spec_example_valid] l spec_start_100)
qed

text \<open>
  C5. For every stage-0 input whose length is not exactly 512 the script exits with a
  non-zero status before it opens the output file: the file system is left as it was,
  so no output file is created and a file that was at the output path is unchanged.
\<close>

theorem C5_stage0_rejected:
  assumes "5 \<le> length argv" "files w (argv ! 1) = Some stage0Img" "length stage0Img \<noteq> 512"
  shows "fst (main argv w) \<in> {Inl Stage0WrongSize, Inl (FileDoesNotExist (argv ! 2)),
                                Inl (FileDoesNotExist (argv ! 3))} \<and>
         exit_status (fst (main argv w)) = 1 \<and>
         files (snd (main argv w)) = files w"
proof -
  have argc: "\<not> length argv < 5" using assms(1) by simp
  have f0: "files w (argv ! Suc 0) = Some stage0Img" using assms(2) by simp
  show ?thesis
    unfolding main_def
    by (cases "files w (argv ! 2)"; cases "files w (argv ! 3)")
      (simp_all add: argc f0 assms(3) Let_def bnd_def assertFileExists_def path_exists_def
        fileSize_def cerr_def raise_def ret_def)
qed

theorem C5_stage0_rejected_witness:
  "exit_status (fst (main other_argv
      (other_world stage0_short_example stage1_example kernel_example))) = 1 \<and>
   outputFile other_argv (other_world stage0_short_example stage1_example kernel_example)
     = Some [1, 2, 3]"
proof -
  let ?w = "other_world stage0_short_example stage1_example kernel_example"
  have "5 \<le> length other_argv" "files ?w (other_argv ! 1) = Some stage0_short_example"
      "length stage0_short_example \<noteq> 512"
    by (simp_all add: other_argv_def other_world_def stage0_short_example_def)
  from C5_stage0_rejected[OF this]
  have "exit_status (fst (main other_argv ?w)) = 1" "files (snd (main other_argv ?w)) = files ?w"
    by simp_all
  then show ?thesis
    by (simp add: outputFile_def) (simp add: other_argv_def other_world_def)
qed

text \<open>
  C6. For every valid input exactly \<^verbatim>\<open>512 - (K mod 512)\<close> zero bytes follow the
  kernel, which itself follows the 1024 + S1 bytes of the stages and the metadata
  sector; this is the number \<open>paddingLen\<close> computes, and it is 512 when the kernel's
  length is already a multiple of 512.
\<close>

theorem C6_kernel_padding:
  assumes "valid_inputs argv w stage0Img stage1Img kernelImg"
  shows "(\<exists>front. outputFile argv w =
             Some (front @ kernelImg @ replicate (512 - length kernelImg mod 512) 0) \<and>
           length front = 1024 + length stage1Img) \<and>
         nat (paddingLen (int (length kernelImg))) = 512 - length kernelImg mod 512 \<and>
         (length kernelImg mod 512 = 0 \<longrightarrow> paddingLen (int (length kernelImg)) = 512)"
proof -
  from assms have l0: "length stage0Img = 512" by (simp add: valid_inputs_def)
  let ?front = "stage0Img @ stage1Img @
     (le_digits 8 magic @ le_digits 8 (kernelImageStartSec 512 (int (length stage1Img)))
        @ le_digits 8 (int (length kernelImg)) @ replicate 488 0)"
  have "outputFile argv w =
          Some (?front @ kernelImg @ replicate (512 - length kernelImg mod 512) 0)"
    using outputFile_valid[OF assms] by (simp add: diskImage_def)
  moreover have "length ?front = 1024 + length stage1Img"
    using l0 by (simp add: length_le_digits)
  ultimately have "\<exists>front. outputFile argv w =
             Some (front @ kernelImg @ replicate (512 - length kernelImg mod 512) 0) \<and>
           length front = 1024 + length stage1Img"
    by blast
  moreover have "length kernelImg mod 512 = 0 \<longrightarrow> paddingLen (int (length kernelImg)) = 512"
    by (simp add: paddingLen_aligned)
  ultimately show ?thesis by (simp add: nat_paddingLen)
qed

theorem C6_kernel_padding_witness:
  "(\<exists>front. outputFile example_argv
        (example_world stage0_example stage1_aligned_example kernel_aligned_example)
      = Some (front @ kernel_aligned_example @ replicate 512 0) \<and>
      length front = 1536) \<and>
   paddingLen 1024 = 512"
proof -
  have "length stage1_aligned_example = 512" "length kernel_aligned_example = 1024"
    by (simp_all add: stage1_aligned_example_def kernel_aligned_example_def)
  then show ?thesis
    using C6_kernel_padding[OF aligned_kernel_example_valid] by simp
qed

text \<open>
  C7. For every valid input, reading the three little-endian 64-bit fields back from
  the image at the place of the metadata sector gives the magic number, the start
  sector the script computed and the length of the kernel it was given.
\<close>

theorem C7_fields_round_trip:
  assumes "valid_inputs argv w stage0Img stage1Img kernelImg"
  shows "\<exists>img. outputFile argv w = Some img \<and>
           read_u64_le img (512 + length stage1Img) = 0x617461646174656d \<and>
           read_u64_le img (512 + length stage1Img + 8)
             = kernelImageStartSec 512 (int (length stage1Img)) \<and>
           read_u64_le img (512 + length stage1Img + 16) = int (length kernelImg)"
  using outputFile_valid[OF assms] fields_read_back[OF assms]
  by (simp add: magic_def)

theorem C7_fields_round_trip_witness:
  "\<exists>img. outputFile example_argv (example_world stage0_example stage1_example kernel_example)
            = Some img \<and>
         read_u64_le img 612 = 0x617461646174656d \<and>
         read_u64_le img 620 = 102 \<and>
         read_u64_le img 628 = 1000"
proof -
  have "length stage1_example = 100" "length kernel_example = 1000"
    by (simp_all add: stage1_example_def kernel_example_def)
  then show ?thesis
    using C7_fields_round_trip[OF spec_example_valid] by (simp add: startSec_100)
qed

text \<open>
  C8. For every valid input the output image begins with the 512 bytes of the stage-0
  image, and the bytes of the stage-1 image follow at byte offset 512 with nothing in
  between.
\<close>

theorem C8_stages_verbatim:
  assumes "valid_inputs argv w stage0Img stage1Img kernelImg"
  shows "length stage0Img = 512 \<and>
         (\<exists>rest. outputFile argv w = Some (stage0Img @ stage1Img @ rest))"
  using assms outputFile_valid[OF assms] by (simp add: valid_inputs_def diskImage_def)

theorem C8_stages_verbatim_witness:
  "\<exists>rest. outputFile example_argv (example_world stage0_example stage1_example kernel_example)
      = Some (replicate 512 0 @ replicate 100 0xAA @ rest)"
  using C8_stages_verbatim[OF spec_example_valid]
  by (simp add: stage0_example_def stage1_example_def)

text \<open>
  C9. The header assembled from the three fields is always exactly 24 bytes, whatever
  the inputs, so the check that it is longer than 512 bytes never triggers: no run of
  the script ends in that error.
\<close>

theorem C9_header_check_unreachable:
  "(metadataHeader stage0Size stage1Size kernelImagePath w0 = (Inr (header, kernelImageSize), w1)
      \<longrightarrow> length header = 24) \<and>
   fst (main argv w) \<noteq> Inl MetadataTooBig"
  using metadataHeader_length main_not_MetadataTooBig by blast

theorem C9_header_check_unreachable_witness:
  "metadataHeader 512 100 ''kernel.elf''
       (example_world stage0_example stage1_example kernel_example)
     = (Inr (le_digits 8 magic @ le_digits 8 102 @ le_digits 8 1000, 1000),
        example_world stage0_example stage1_example kernel_example) \<and>
   length (le_digits 8 magic @ le_digits 8 102 @ le_digits 8 1000) = 24 \<and>
   fst (main example_argv (example_world stage0_example stage1_example kernel_example))
     \<noteq> Inl MetadataTooBig"
proof -
  let ?w = "example_world stage0_example stage1_example kernel_example"
  have "metadataHeader 512 (int (length stage1_example)) ''kernel.elf'' ?w
      = (Inr (le_digits 8 magic
               @ le_digits 8 (kernelImageStartSec 512 (int (length stage1_example)))
               @ le_digits 8 (int (length kernel_example)), int (length kernel_example)), ?w)"
    by (rule metadataHeader_valid)
      (simp_all add: example_world_def stage1_example_def kernel_example_def)
  then have run: "metadataHeader 512 100 ''kernel.elf'' ?w
      = (Inr (le_digits 8 magic @ le_digits 8 102 @ le_digits 8 1000, 1000), ?w)"
    by (simp add: stage1_example_def kernel_example_def startSec_100)
  from C9_header_check_unreachable[of 512 100 "''kernel.elf''" ?w
      "le_digits 8 magic @ le_digits 8 102 @ le_digits 8 1000" 1000 ?w example_argv ?w] run
  show ?thesis by blast
qed

text \<open>
  C10. The output is a function of the three input byte streams alone: a second run
  on the world the first one left behind writes the same bytes again, and any two
  valid runs on the same three contents, whatever the paths, the earlier content of the
  output file and the rest of the world, write identical output files.
\<close>

theorem C10_deterministic:
  assumes "valid_inputs argv w stage0Img stage1Img kernelImg"
    and "valid_inputs argv' w' stage0Img stage1Img kernelImg"
  shows "outputFile argv (snd (main argv w)) = outputFile argv w \<and>
         outputFile argv' w' = outputFile argv w"
  by (simp add: outputFile_valid[OF assms(1)] outputFile_valid[OF assms(2)]
      outputFile_valid[OF valid_inputs_after[OF assms(1)]])

theorem C10_deterministic_witness:
  "outputFile example_argv
       (snd (main example_argv (example_world stage0_example stage1_example kernel_example)))
     = outputFile example_argv (example_world stage0_example stage1_example kernel_example) \<and>
   outputFile other_argv (other_world stage0_example stage1_example kernel_example)
     = outputFile example_argv (example_world stage0_example stage1_example kernel_example)"
proof -
  have "valid_inputs other_argv (other_world stage0_example stage1_example kernel_example)
          stage0_example stage1_example kernel_example"
    by (rule other_valid)
      (simp_all add: stage0_example_def stage1_example_def kernel_example_def)
  from C10_deterministic[OF spec_example_valid this] show ?thesis .
qed

end
